theory Spec2Isabelle
  imports Main "HOL-Library.Char_ord" "HOL-Library.List_Lexorder" "HOL-Library.AList"
    "HOL-Library.Sublist"
begin

section \<open>Ralph workspace spec checkup (ralph\_status.py)\<close>

text \<open>
  A shallow embedding of \<^verbatim>\<open>scripts/ralph_status.py\<close>. Python's \<^verbatim>\<open>str\<close> is
  modelled by \<^typ>\<open>string\<close>: a text is the list of the bytes of its UTF-8 encoding, so the
  emoji of the report and the white space beyond ASCII are written as their bytes. A text
  that the program reads (the output of a command, the contents of a file) is decoded by
  Python before the program sees it, so it is the encoding of a sequence of code points.
\<close>

subsection \<open>Strings\<close>

text \<open>
  The white space of \<^verbatim>\<open>str.strip\<close>, \<^verbatim>\<open>str.rstrip\<close> and \<^verbatim>\<open>str.split()\<close>: the code
  points \<^verbatim>\<open>U+0009 .. U+000D\<close>, \<^verbatim>\<open>U+001C .. U+0020\<close>, \<^verbatim>\<open>U+0085\<close>, \<^verbatim>\<open>U+00A0\<close>,
  \<^verbatim>\<open>U+1680\<close>, \<^verbatim>\<open>U+2000 .. U+200A\<close>, \<^verbatim>\<open>U+2028\<close>, \<^verbatim>\<open>U+2029\<close>, \<^verbatim>\<open>U+202F\<close>,
  \<^verbatim>\<open>U+205F\<close> and \<^verbatim>\<open>U+3000\<close>, each as its bytes.
\<close>

definition whitespace :: "string list" where
  "whitespace =
     map (\<lambda>c. [c]) [CHR 0x09, CHR 0x0A, CHR 0x0B, CHR 0x0C, CHR 0x0D,
                     CHR 0x1C, CHR 0x1D, CHR 0x1E, CHR 0x1F, CHR 0x20]
     @ [[CHR 0xC2, CHR 0x85], [CHR 0xC2, CHR 0xA0], [CHR 0xE1, CHR 0x9A, CHR 0x80]]
     @ map (\<lambda>c. [CHR 0xE2, CHR 0x80, c])
         [CHR 0x80, CHR 0x81, CHR 0x82, CHR 0x83, CHR 0x84, CHR 0x85, CHR 0x86, CHR 0x87,
          CHR 0x88, CHR 0x89, CHR 0x8A, CHR 0xA8, CHR 0xA9, CHR 0xAF]
     @ [[CHR 0xE2, CHR 0x81, CHR 0x9F], [CHR 0xE3, CHR 0x80, CHR 0x80]]"

text \<open>
  The number of bytes of the white space character at the head of a text, 0 when the
  text does not begin with one; \<open>leading\<close> is the number of bytes of the white space
  that a text begins with.
\<close>

definition space_len :: "string list \<Rightarrow> string \<Rightarrow> nat" where
  "space_len spaces s =
     (case find (\<lambda>sp. take (length sp) s = sp) spaces of None \<Rightarrow> 0 | Some sp \<Rightarrow> length sp)"

function leading :: "string list \<Rightarrow> string \<Rightarrow> nat" where
  "leading spaces s =
     (if space_len spaces s = 0 then 0
      else space_len spaces s + leading spaces (drop (space_len spaces s) s))"
  by pat_completeness auto
termination
proof (relation "measure (\<lambda>(spaces, s). length s)")
  show "wf (measure (\<lambda>(spaces, s). length s))" by simp
next
  fix spaces :: "string list" and s :: string
  assume pos: "space_len spaces s \<noteq> 0"
  then obtain sp where "find (\<lambda>sp. take (length sp) s = sp) spaces = Some sp" "length sp \<noteq> 0"
    by (auto simp: space_len_def split: option.splits)
  then have "take (length sp) s = sp" "sp \<noteq> []"
    by (auto simp: find_Some_iff)
  then have "s \<noteq> []"
    by auto
  with pos show "((spaces, drop (space_len spaces s) s), (spaces, s))
      \<in> measure (\<lambda>(spaces, s). length s)"
    by simp
qed

declare leading.simps [simp del]

definition lstrip :: "string \<Rightarrow> string" where
  "lstrip s = drop (leading whitespace s) s"

definition rstrip :: "string \<Rightarrow> string" where
  "rstrip s = rev (drop (leading (map rev whitespace) (rev s)) (rev s))"

definition strip :: "string \<Rightarrow> string" where
  "strip s = rstrip (lstrip s)"

text \<open>\<^verbatim>\<open>s.split(sep)\<close> for a one-character separator: never empty, \<^verbatim>\<open>"".split("\n") == [""]\<close>.\<close>

fun split_on :: "char \<Rightarrow> string \<Rightarrow> string list" where
  "split_on sep [] = [[]]"
| "split_on sep (c # cs) =
     (if c = sep then [] # split_on sep cs
      else (case split_on sep cs of [] \<Rightarrow> [[c]] | l # ls \<Rightarrow> (c # l) # ls))"

text \<open>
  \<^verbatim>\<open>s.split()\<close>: the maximal runs of non-whitespace, none of them empty. \<open>word_len\<close>
  is the number of bytes before the next white space character.
\<close>

definition word_len :: "string \<Rightarrow> nat" where
  "word_len s = length (takeWhile (\<lambda>n. space_len whitespace (drop n s) = 0) [0..<length s])"

function split_ws :: "string \<Rightarrow> string list" where
  "split_ws s =
     (case lstrip s of
        [] \<Rightarrow> []
      | c # cs \<Rightarrow> (c # take (word_len cs) cs) # split_ws (drop (word_len cs) cs))"
  by pat_completeness auto
termination
proof (relation "measure length")
  show "wf (measure length)" by simp
next
  fix s :: string and c cs
  assume "lstrip s = c # cs"
  then have "length (c # cs) \<le> length s"
    by (metis lstrip_def length_drop diff_le_self)
  then show "(drop (word_len cs) cs, s) \<in> measure length"
    by simp
qed

declare split_ws.simps [simp del]

text \<open>\<^verbatim>\<open>"\n".join(lines)\<close>.\<close>

fun join :: "string \<Rightarrow> string list \<Rightarrow> string" where
  "join sep [] = []"
| "join sep [l] = l"
| "join sep (l # m # ls) = l @ sep @ join sep (m # ls)"

text \<open>
  A file that is opened in text mode is read with universal newlines: \<^verbatim>\<open>\r\n\<close> and
  \<^verbatim>\<open>\r\<close> become \<^verbatim>\<open>\n\<close>.
\<close>

fun universal_newlines :: "string \<Rightarrow> string" where
  "universal_newlines [] = []"
| "universal_newlines [c] = (if c = CHR 0x0D then [CHR 0x0A] else [c])"
| "universal_newlines (c # d # cs) =
     (if c = CHR 0x0D \<and> d = CHR 0x0A then CHR 0x0A # universal_newlines cs
      else if c = CHR 0x0D then CHR 0x0A # universal_newlines (d # cs)
      else c # universal_newlines (d # cs))"

text \<open>\<^verbatim>\<open>f.readlines()\<close> on the text that was read: the lines with their line ends kept.\<close>

fun readlines :: "string \<Rightarrow> string list" where
  "readlines [] = []"
| "readlines (c # cs) =
     (if c = CHR 0x0A then [c] # readlines cs
      else (case readlines cs of [] \<Rightarrow> [[c]] | l # ls \<Rightarrow> (c # l) # ls))"

text \<open>\<^verbatim>\<open>xs[-n:]\<close> for a positive \<open>n\<close>.\<close>

definition lastn :: "nat \<Rightarrow> 'a list \<Rightarrow> 'a list" where
  "lastn n xs = drop (length xs - n) xs"

text \<open>Decimal digits of a number, as \<^verbatim>\<open>str\<close> and the f-strings print an \<^verbatim>\<open>int\<close>.\<close>

definition digit :: "nat \<Rightarrow> char" where
  "digit d = char_of (48 + d)"

function str_nat :: "nat \<Rightarrow> string" where
  "str_nat n = (if n < 10 then [digit n] else str_nat (n div 10) @ [digit (n mod 10)])"
  by pat_completeness auto
termination
  by (relation "measure id") auto

declare str_nat.simps [simp del]

definition str_int :: "int \<Rightarrow> string" where
  "str_int i = (if i < 0 then CHR ''-'' # str_nat (nat (- i)) else str_nat (nat i))"

text \<open>\<^verbatim>\<open>len\<close> of a text counts code points: the bytes that are no continuation byte.\<close>

definition is_continuation :: "char \<Rightarrow> bool" where
  "is_continuation c = (128 \<le> (of_char c :: nat) \<and> (of_char c :: nat) < 192)"

definition codepoints :: "string \<Rightarrow> nat" where
  "codepoints s = length (filter (\<lambda>c. \<not> is_continuation c) s)"

subsection \<open>The values of \<^verbatim>\<open>json.load\<close>\<close>

text \<open>
  A float is only tested for zero by the program; it is a dyadic number, an infinity or
  a NaN. Python's \<^verbatim>\<open>None\<close> is \<open>JNull\<close>.
\<close>

datatype pyfloat = Finite int int | Infinity bool | NaN

datatype json =
    JNull
  | JBool bool
  | JInt int
  | JFloat pyfloat
  | JString string
  | JArray "json list"
  | JObject "(string \<times> json) list"

datatype error =
    IndexError | KeyError | AttributeError | TypeError | NotADirectoryError | FileNotFoundError

text \<open>Truth value of a Python object, as \<^verbatim>\<open>if x:\<close> tests it.\<close>

fun truthy :: "json \<Rightarrow> bool" where
  "truthy JNull = False"
| "truthy (JBool b) = b"
| "truthy (JInt i) = (i \<noteq> 0)"
| "truthy (JFloat (Finite m e)) = (m \<noteq> 0)"
| "truthy (JFloat (Infinity s)) = True"
| "truthy (JFloat NaN) = True"
| "truthy (JString s) = (s \<noteq> [])"
| "truthy (JArray xs) = (xs \<noteq> [])"
| "truthy (JObject kvs) = (kvs \<noteq> [])"

text \<open>\<^verbatim>\<open>d.get(key, default)\<close>: only a dict has the method.\<close>

fun py_get :: "json \<Rightarrow> string \<Rightarrow> json \<Rightarrow> error + json" where
  "py_get (JObject kvs) k d = Inr (case map_of kvs k of None \<Rightarrow> d | Some v \<Rightarrow> v)"
| "py_get v k d = Inl AttributeError"

text \<open>\<^verbatim>\<open>d[key]\<close>.\<close>

fun py_index :: "json \<Rightarrow> string \<Rightarrow> error + json" where
  "py_index (JObject kvs) k = (case map_of kvs k of None \<Rightarrow> Inl KeyError | Some v \<Rightarrow> Inr v)"
| "py_index v k = Inl TypeError"

fun py_len :: "json \<Rightarrow> error + nat" where
  "py_len (JString s) = Inr (codepoints s)"
| "py_len (JArray xs) = Inr (length xs)"
| "py_len (JObject kvs) = Inr (length kvs)"
| "py_len v = Inl TypeError"

subsection \<open>The world the tool reads\<close>

type_synonym path = "string list"

datatype content = Unreadable | Text string

datatype node = File content | Dir "(string \<times> node) list"

datatype proc_outcome =
    Completed int string string
  | TimeoutExpired
  | Raised string

record datetime =
  year :: nat
  month :: nat
  day :: nat
  hour :: nat
  minute :: nat
  second :: nat
  microsecond :: nat

text \<open>
  \<open>fs\<close> is the directory tree below \<^verbatim>\<open>/\<close> (no symbolic links, no permissions on
  directories); a path is the list of its components. \<open>exec\<close> is what
  \<^verbatim>\<open>subprocess.run(cmd, shell=True, cwd=cwd, capture_output=True, text=True, timeout=5)\<close>
  does for the \<open>n\<close>-th command of the run: it returns (exit status, standard output,
  standard error), the two texts as the result object has them (decoded, and with
  universal newlines), the timeout expires, or another \<^verbatim>\<open>Exception\<close> with the given
  message is raised (so does an output that cannot be decoded). The text of a file is
  its decoded contents; a file that cannot be opened or decoded is \<open>Unreadable\<close>.
  \<open>json_load\<close> is the parser of the \<^verbatim>\<open>json\<close> module
  (\<open>None\<close>: it raises), \<open>py_repr\<close> is how Python prints a float, a list or
  a dict, \<open>py_version\<close> is \<^verbatim>\<open>sys.version.split()[0]\<close>.
\<close>

record world =
  now :: datetime
  nodename :: string
  py_version :: string
  fs :: node
  exec :: "nat \<Rightarrow> string \<Rightarrow> path option \<Rightarrow> proc_outcome"
  json_load :: "string \<Rightarrow> json option"
  py_repr :: "json \<Rightarrow> string"

type_synonym trace = "(string \<times> path option) list"

fun lookup :: "node \<Rightarrow> path \<Rightarrow> node option" where
  "lookup n [] = Some n"
| "lookup (File c) (x # xs) = None"
| "lookup (Dir es) (x # xs) = (case map_of es x of None \<Rightarrow> None | Some c \<Rightarrow> lookup c xs)"

definition exists :: "world \<Rightarrow> path \<Rightarrow> bool" where
  "exists w p = (lookup (fs w) p \<noteq> None)"

definition is_dir :: "world \<Rightarrow> path \<Rightarrow> bool" where
  "is_dir w p = (case lookup (fs w) p of Some (Dir es) \<Rightarrow> True | _ \<Rightarrow> False)"

definition iterdir :: "world \<Rightarrow> path \<Rightarrow> error + path list" where
  "iterdir w p =
     (case lookup (fs w) p of
        None \<Rightarrow> Inl FileNotFoundError
      | Some (File c) \<Rightarrow> Inl NotADirectoryError
      | Some (Dir es) \<Rightarrow> Inr (map (\<lambda>e. p @ [fst e]) es))"

definition parent :: "path \<Rightarrow> path" where
  "parent p = butlast p"

text \<open>\<^verbatim>\<open>str(path)\<close> of an absolute path.\<close>

definition str_path :: "path \<Rightarrow> string" where
  "str_path p = CHR ''/'' # join ''/'' p"

text \<open>\<^verbatim>\<open>str(p.relative_to(p.parent.parent.parent))\<close>: the last three components.\<close>

definition str_relative :: "path \<Rightarrow> string" where
  "str_relative p =
     (case drop (length (parent (parent (parent p)))) p of [] \<Rightarrow> ''.'' | c # cs \<Rightarrow> join ''/'' (c # cs))"

text \<open>Python's \<^verbatim>\<open>str\<close> of a parsed value, as an f-string prints it.\<close>

definition py_str :: "world \<Rightarrow> json \<Rightarrow> string" where
  "py_str w v =
     (case v of
        JString s \<Rightarrow> s
      | JNull \<Rightarrow> ''None''
      | JBool b \<Rightarrow> (if b then ''True'' else ''False'')
      | JInt i \<Rightarrow> str_int i
      | _ \<Rightarrow> py_repr w v)"

subsection \<open>The command runner\<close>

definition run_cmd :: "world \<Rightarrow> string \<Rightarrow> path option \<Rightarrow> trace \<Rightarrow> string \<times> trace" where
  "run_cmd w cmd cwd tr =
     ((case exec w (length tr) cmd cwd of
         Completed rc out err \<Rightarrow> strip out
       | TimeoutExpired \<Rightarrow> ''[timeout]''
       | Raised msg \<Rightarrow> ''[error: '' @ msg @ '']''),
      tr @ [(cmd, cwd)])"

subsection \<open>The probes\<close>

definition ebind :: "error + 'a \<Rightarrow> ('a \<Rightarrow> error + 'b) \<Rightarrow> error + 'b" where
  "ebind r f = (case r of Inl e \<Rightarrow> Inl e | Inr x \<Rightarrow> f x)"

definition startswith :: "string \<Rightarrow> string \<Rightarrow> bool" where
  "startswith s p = (take (length p) s = p)"

definition name :: "path \<Rightarrow> string" where
  "name p = (if p = [] then [] else last p)"

definition get_ralph_status :: "world \<Rightarrow> path \<Rightarrow> json" where
  "get_ralph_status w spec_dir =
     (let progress_file = spec_dir @ [''.ralph'', ''progress.json''] in
      if \<not> exists w progress_file then JNull
      else (case lookup (fs w) progress_file of
              Some (File (Text t)) \<Rightarrow>
                (case json_load w (universal_newlines t) of None \<Rightarrow> JNull | Some v \<Rightarrow> v)
            | _ \<Rightarrow> JNull))"

definition get_session_log :: "world \<Rightarrow> path \<Rightarrow> string list" where
  "get_session_log w spec_dir =
     (let log_file = spec_dir @ [''.ralph'', ''session.log''] in
      if \<not> exists w log_file then []
      else (case lookup (fs w) log_file of
              Some (File (Text t)) \<Rightarrow> lastn 10 (readlines (universal_newlines t))
            | _ \<Rightarrow> []))"

text \<open>The loop of \<^verbatim>\<open>get_git_info\<close> that looks for the repository root.\<close>

function find_repo_root :: "world \<Rightarrow> path \<Rightarrow> path" where
  "find_repo_root w repo_root =
     (if repo_root \<noteq> parent repo_root then
        (if exists w (repo_root @ [''.git'']) then repo_root
         else find_repo_root w (parent repo_root))
      else repo_root)"
  by pat_completeness auto
termination
proof (relation "measure (\<lambda>(w, p). length p)")
  show "wf (measure (\<lambda>(w, p). length p))" by simp
next
  fix w :: world and repo_root :: path
  assume "repo_root \<noteq> parent repo_root"
  then have "repo_root \<noteq> []" by (auto simp: parent_def)
  then show "((w, parent repo_root), (w, repo_root)) \<in> measure (\<lambda>(w, p). length p)"
    by (simp add: parent_def)
qed

declare find_repo_root.simps [simp del]

record git_info =
  branch :: string
  recent_commits :: "string list"
  status :: string

definition git_branch_cmd :: string where
  "git_branch_cmd = ''git rev-parse --abbrev-ref HEAD''"

definition git_log_cmd :: string where
  "git_log_cmd = ''git log --oneline -5 2>/dev/null || echo '' @ [CHR 0x27] @ ''no commits'' @ [CHR 0x27]"

definition git_status_cmd :: string where
  "git_status_cmd = ''git status --short''"

text \<open>The result is \<open>None\<close> for the empty dict.\<close>

definition get_git_info :: "world \<Rightarrow> path \<Rightarrow> trace \<Rightarrow> git_info option \<times> trace" where
  "get_git_info w spec_dir tr =
     (let repo_root = find_repo_root w spec_dir in
      if exists w (repo_root @ [''.git'']) then
        (case run_cmd w git_branch_cmd (Some repo_root) tr of (b, tr1) \<Rightarrow>
         case run_cmd w git_log_cmd (Some repo_root) tr1 of (c, tr2) \<Rightarrow>
         case run_cmd w git_status_cmd (Some repo_root) tr2 of (s, tr3) \<Rightarrow>
           (Some \<lparr>branch = b, recent_commits = split_on (CHR 0x0A) c, status = s\<rparr>, tr3))
      else (None, tr))"

definition du_cmd :: "path \<Rightarrow> string" where
  "du_cmd nm_dir = ''du -sh '' @ [CHR 0x27] @ str_path nm_dir @ [CHR 0x27]"

text \<open>
  The loop over \<^verbatim>\<open>services_dir.iterdir()\<close>; \<^verbatim>\<open>resources\<close> is a dict, an
  association list whose update keeps the place of a key that is already there.
\<close>

fun resource_loop ::
  "world \<Rightarrow> path list \<Rightarrow> (string \<times> string) list \<Rightarrow> trace
    \<Rightarrow> (error + (string \<times> string) list) \<times> trace" where
  "resource_loop w [] resources tr = (Inr resources, tr)"
| "resource_loop w (service_dir # rest) resources tr =
     (if is_dir w service_dir \<and> exists w (service_dir @ [''node_modules'']) then
        (case split_ws (fst (run_cmd w (du_cmd (service_dir @ [''node_modules''])) None tr)) of
           [] \<Rightarrow> (Inl IndexError, snd (run_cmd w (du_cmd (service_dir @ [''node_modules''])) None tr))
         | sz # toks \<Rightarrow>
             resource_loop w rest (AList.update (name service_dir) sz resources)
               (snd (run_cmd w (du_cmd (service_dir @ [''node_modules''])) None tr)))
      else resource_loop w rest resources tr)"

definition get_resource_usage ::
  "world \<Rightarrow> path \<Rightarrow> trace \<Rightarrow> (error + (string \<times> string) list) \<times> trace" where
  "get_resource_usage w spec_dir tr =
     (let services_dir = parent (parent spec_dir) @ [''services''] in
      if exists w services_dir then
        (case iterdir w services_dir of
           Inl e \<Rightarrow> (Inl e, tr)
         | Inr ds \<Rightarrow> resource_loop w ds [] tr)
      else (Inr [], tr))"

definition docker_cmd :: string where
  "docker_cmd = ''docker ps -a --format '' @ [CHR 0x27] @ ''table {{.Names}}'' @ [CHR 0x5C]
     @ ''t{{.Status}}'' @ [CHR 0x5C] @ ''t{{.Size}}'' @ [CHR 0x27] @ '' 2>/dev/null''"

definition docker_placeholder :: string where
  "docker_placeholder = ''Docker not available or not running''"

definition check_docker_status :: "world \<Rightarrow> trace \<Rightarrow> (string \<times> string) list \<times> trace" where
  "check_docker_status w tr =
     (case run_cmd w docker_cmd None tr of (result, tr1) \<Rightarrow>
        (if result \<noteq> [] \<and> \<not> startswith result ''[''
         then [(''containers'', result)]
         else [(''containers'', docker_placeholder)], tr1))"

definition which_cmd :: string where
  "which_cmd = ''which timeout''"

text \<open>An entry of \<^verbatim>\<open>deps\<close>: the name, then \<^verbatim>\<open>available\<close> and \<^verbatim>\<open>path\<close>.\<close>

definition check_system_deps :: "world \<Rightarrow> trace \<Rightarrow> (string \<times> bool \<times> string) list \<times> trace" where
  "check_system_deps w tr =
     (case run_cmd w which_cmd None tr of (a, tr1) \<Rightarrow>
      case run_cmd w which_cmd None tr1 of (p, tr2) \<Rightarrow>
        ([(''timeout'', a \<noteq> [], p)], tr2))"

subsection \<open>Discovery\<close>

text \<open>
  \<^verbatim>\<open>workspace.rglob("specs")\<close>: every path strictly below the workspace whose last
  component is the pattern. \<open>walk\<close> lists the paths below a node.
\<close>

fun walk :: "path \<Rightarrow> node \<Rightarrow> path list" where
  "walk p (File c) = []"
| "walk p (Dir es) = concat (map (\<lambda>(n, c). (p @ [n]) # walk (p @ [n]) c) es)"

definition rglob :: "world \<Rightarrow> path \<Rightarrow> string \<Rightarrow> path list" where
  "rglob w workspace pat =
     (case lookup (fs w) workspace of
        None \<Rightarrow> []
      | Some n \<Rightarrow> filter (\<lambda>q. name q = pat) (walk workspace n))"

fun spec_dirs_loop :: "world \<Rightarrow> path list \<Rightarrow> path list \<Rightarrow> path list" where
  "spec_dirs_loop w [] specs = specs"
| "spec_dirs_loop w (spec_dir # rest) specs =
     (if is_dir w spec_dir \<and> exists w (spec_dir @ [''.ralph''])
      then spec_dirs_loop w rest (specs @ [spec_dir])
      else spec_dirs_loop w rest specs)"

fun items_loop :: "world \<Rightarrow> path list \<Rightarrow> path list \<Rightarrow> error + path list" where
  "items_loop w [] specs = Inr specs"
| "items_loop w (item # rest) specs =
     (if is_dir w item then
        (case iterdir w item of
           Inl e \<Rightarrow> Inl e
         | Inr ds \<Rightarrow> items_loop w rest (spec_dirs_loop w ds specs))
      else items_loop w rest specs)"

text \<open>The workspace is given resolved: absolute, without symbolic links.\<close>

definition scan_specs :: "world \<Rightarrow> path \<Rightarrow> error + path list" where
  "scan_specs w workspace =
     (case items_loop w (rglob w workspace ''specs'') [] of
        Inl e \<Rightarrow> Inl e
      | Inr specs \<Rightarrow> Inr (sort specs))"

subsection \<open>The report\<close>

definition pad2 :: "nat \<Rightarrow> string" where
  "pad2 n = (if n < 10 then CHR ''0'' # str_nat n else str_nat n)"

text \<open>
  \<^verbatim>\<open>strftime('%Y-%m-%d %H:%M:%S')\<close>; the year is printed in decimal, which is
  \<^verbatim>\<open>%Y\<close> for the years from 1000 on.
\<close>

definition strftime :: "datetime \<Rightarrow> string" where
  "strftime t =
     str_nat (year t) @ ''-'' @ pad2 (month t) @ ''-'' @ pad2 (day t) @ '' ''
       @ pad2 (hour t) @ '':'' @ pad2 (minute t) @ '':'' @ pad2 (second t)"

definition nl :: string where
  "nl = [CHR 0x0A]"

definition tick :: string where
  "tick = [CHR 0x60]"

definition warning_sign :: string where
  "warning_sign = [CHR 0xE2, CHR 0x9A, CHR 0xA0, CHR 0xEF, CHR 0xB8, CHR 0x8F]"

definition no_entry_sign :: string where
  "no_entry_sign = [CHR 0xF0, CHR 0x9F, CHR 0x9A, CHR 0xAB]"

definition check_mark :: string where
  "check_mark = [CHR 0xE2, CHR 0x9C, CHR 0x85]"

definition cross_mark :: string where
  "cross_mark = [CHR 0xE2, CHR 0x9D, CHR 0x8C]"

definition header :: "world \<Rightarrow> string list" where
  "header w =
     [''# Ralph Workspace Spec Checkup'',
      nl @ ''**Generated:** '' @ strftime (now w),
      ''**Host:** '' @ nodename w,
      ''**Python:** '' @ py_version w]"

definition no_specs_line :: string where
  "no_specs_line = nl @ warning_sign @ '' **No Ralph specs found in workspace**''"

text \<open>The block under \<^verbatim>\<open># Ralph Status\<close>: the lines it appends, or the exception.\<close>

definition progress_lines :: "world \<Rightarrow> json \<Rightarrow> error + string list" where
  "progress_lines w ralph_status =
     (if truthy ralph_status then
        ebind (py_get ralph_status ''status'' (JString ''unknown'')) (\<lambda>st.
        ebind (py_get ralph_status ''current_task'' (JString ''none'')) (\<lambda>ct.
        ebind (py_get ralph_status ''completed_tasks'' (JArray [])) (\<lambda>completed.
        ebind (py_len completed) (\<lambda>n.
        ebind (py_get ralph_status ''status'' JNull) (\<lambda>st2.
        ebind (if st2 = JString ''blocked''
               then ebind (py_get ralph_status ''blocked_reason'' (JString ''unknown''))
                      (\<lambda>r. Inr [''- '' @ no_entry_sign @ '' BLOCKED: '' @ py_str w r])
               else Inr []) (\<lambda>blocked.
        ebind (py_get ralph_status ''failed_tasks'' JNull) (\<lambda>ft.
        ebind (if truthy ft
               then ebind (py_index ralph_status ''failed_tasks'') (\<lambda>ft2.
                    ebind (py_len ft2) (\<lambda>m. Inr [''- Failed Tasks: '' @ str_nat m]))
               else Inr []) (\<lambda>failed.
        ebind (py_get ralph_status ''last_updated'' (JString ''never'')) (\<lambda>lu.
          Inr ([nl @ ''**Ralph Progress:**'',
                ''- Status: '' @ tick @ py_str w st @ tick,
                ''- Current Task: '' @ tick @ py_str w ct @ tick,
                ''- Completed: '' @ str_nat n @ '' tasks'']
               @ blocked @ failed
               @ [''- Last Updated: '' @ tick @ py_str w lu @ tick]))))))))))
      else Inr [])"

definition session_header :: string where
  "session_header = nl @ ''**Recent Session Activity:**''"

definition session_lines :: "bool \<Rightarrow> string list \<Rightarrow> string list" where
  "session_lines verbose session_log =
     (if session_log \<noteq> [] \<and> verbose
      then session_header # map (\<lambda>log_line. ''  '' @ rstrip log_line) (lastn 5 session_log)
      else [])"

definition git_lines :: "git_info option \<Rightarrow> string list" where
  "git_lines gi =
     (case gi of
        None \<Rightarrow> []
      | Some g \<Rightarrow>
          [nl @ ''**Git Status:**'']
          @ (if branch g \<noteq> [] then [''- Branch: '' @ tick @ branch g @ tick] else [])
          @ (if recent_commits g \<noteq> []
             then ''- Recent Commits:''
                  # map (\<lambda>commit. ''  - '' @ rstrip commit)
                      (filter (\<lambda>commit. strip commit \<noteq> []) (take 3 (recent_commits g)))
             else [])
          @ (if status g \<noteq> []
             then [''- Uncommitted Changes:'' @ nl @ tick @ tick @ tick @ nl @ status g @ nl
                     @ tick @ tick @ tick]
             else []))"

definition resource_lines :: "bool \<Rightarrow> (string \<times> string) list \<Rightarrow> string list" where
  "resource_lines verbose resources =
     (if resources \<noteq> [] \<and> verbose
      then (nl @ ''**Disk Usage:**'')
           # map (\<lambda>r. ''- '' @ fst r @ '': '' @ snd r) resources
      else [])"

text \<open>One turn of the loop over \<^verbatim>\<open>specs\<close>: the lines it appends, or the exception.\<close>

definition spec_section ::
  "world \<Rightarrow> bool \<Rightarrow> path \<Rightarrow> trace \<Rightarrow> (error + string list) \<times> trace" where
  "spec_section w verbose spec_dir tr =
     (case progress_lines w (get_ralph_status w spec_dir) of
        Inl e \<Rightarrow> (Inl e, tr)
      | Inr pl \<Rightarrow>
          (case get_resource_usage w spec_dir (snd (get_git_info w spec_dir tr)) of
             (Inl e, tr2) \<Rightarrow> (Inl e, tr2)
           | (Inr resources, tr2) \<Rightarrow>
               (Inr ([nl @ ''### '' @ str_relative spec_dir] @ pl
                     @ session_lines verbose (get_session_log w spec_dir)
                     @ git_lines (fst (get_git_info w spec_dir tr))
                     @ resource_lines verbose resources), tr2)))"

fun specs_loop ::
  "world \<Rightarrow> bool \<Rightarrow> path list \<Rightarrow> string list \<Rightarrow> trace \<Rightarrow> (error + string list) \<times> trace" where
  "specs_loop w verbose [] lines tr = (Inr lines, tr)"
| "specs_loop w verbose (spec_dir # rest) lines tr =
     (case spec_section w verbose spec_dir tr of
        (Inl e, tr1) \<Rightarrow> (Inl e, tr1)
      | (Inr ls, tr1) \<Rightarrow> specs_loop w verbose rest (lines @ ls) tr1)"

definition dep_lines :: "(string \<times> bool \<times> string) list \<Rightarrow> string list" where
  "dep_lines deps =
     concat (map (\<lambda>d.
        (''- '' @ fst d @ '': ''
           @ (if fst (snd d) then check_mark @ '' Available'' else cross_mark @ '' Missing''))
        # (if snd (snd d) \<noteq> [] then [''  Path: '' @ tick @ snd (snd d) @ tick] else [])) deps)"

text \<open>The block under \<^verbatim>\<open># System-wide diagnostics\<close>.\<close>

definition diagnostics :: "world \<Rightarrow> trace \<Rightarrow> string list \<times> trace" where
  "diagnostics w tr =
     (case check_docker_status w tr of (docker_info, tr1) \<Rightarrow>
      case check_system_deps w tr1 of (deps, tr2) \<Rightarrow>
        ([nl @ ''## System Diagnostics'',
          nl @ ''**Docker Status:**'',
          tick @ tick @ tick @ nl
            @ (case map_of docker_info ''containers'' of None \<Rightarrow> ''N/A'' | Some c \<Rightarrow> c)
            @ nl @ tick @ tick @ tick,
          nl @ ''**System Dependencies:**'']
         @ dep_lines deps, tr2))"

definition format_report ::
  "world \<Rightarrow> path list \<Rightarrow> bool \<Rightarrow> trace \<Rightarrow> (error + string) \<times> trace" where
  "format_report w specs verbose tr =
     (if specs = [] then (Inr (join nl (header w @ [no_specs_line])), tr)
      else
        (case specs_loop w verbose specs
                (header w @ [nl @ ''## Found '' @ str_nat (length specs) @ '' Ralph Spec(s)'']) tr of
           (Inl e, tr1) \<Rightarrow> (Inl e, tr1)
         | (Inr lines, tr1) \<Rightarrow>
             (if verbose then
                (case diagnostics w tr1 of (ds, tr2) \<Rightarrow> (Inr (join nl (lines @ ds)), tr2))
              else (Inr (join nl lines), tr1))))"

subsection \<open>Example worlds\<close>

definition new_year :: datetime where
  "new_year = \<lparr>year = 2024, month = 1, day = 1, hour = 0, minute = 0, second = 0, microsecond = 0\<rparr>"

definition no_json :: "string \<Rightarrow> json option" where
  "no_json s = None"

definition question_mark :: "json \<Rightarrow> string" where
  "question_mark v = ''?''"

definition make_world ::
  "node \<Rightarrow> (nat \<Rightarrow> string \<Rightarrow> path option \<Rightarrow> proc_outcome) \<Rightarrow> world" where
  "make_world t ex =
     \<lparr>now = new_year, nodename = ''host'', py_version = ''3.11.2'', fs = t, exec = ex,
      json_load = no_json, py_repr = question_mark\<rparr>"

text \<open>A command that exits with status 2 after it has printed a part of its output.\<close>

definition exits_2 :: "nat \<Rightarrow> string \<Rightarrow> path option \<Rightarrow> proc_outcome" where
  "exits_2 n cmd cwd = Completed 2 ''partial output'' ''ls: cannot access''"

text \<open>A container whose name starts with a bracket, listed without a heading.\<close>

definition lists_bracket :: "nat \<Rightarrow> string \<Rightarrow> path option \<Rightarrow> proc_outcome" where
  "lists_bracket n cmd cwd = Completed 0 ''[web] Up 2 hours'' []"

text \<open>
  The sentinel of a failure as the specification words it: a text that is marked as an
  error and carries a description, \<^verbatim>\<open>[error: ...]\<close>.
\<close>

definition is_error_sentinel :: "string \<Rightarrow> bool" where
  "is_error_sentinel s = (startswith s ''[error: '' \<and> s \<noteq> [] \<and> last s = CHR '']'')"

text \<open>A command that succeeds and prints a text of the shape of the error sentinel.\<close>

definition prints_sentinel :: "nat \<Rightarrow> string \<Rightarrow> path option \<Rightarrow> proc_outcome" where
  "prints_sentinel n cmd cwd = Completed 0 (''[error: boom]'' @ [CHR 0x0A]) []"

text \<open>
  The workspace of the examples: two spec directories below \<^verbatim>\<open>/ws/specs\<close>, and a
  service with a \<^verbatim>\<open>node_modules\<close> folder below \<^verbatim>\<open>/ws/services\<close>.
\<close>

definition services_tree :: node where
  "services_tree =
     Dir [(''ws'', Dir [(''specs'', Dir [(''a'', Dir [(''.ralph'', Dir [])]),
                                        (''b'', Dir [(''.ralph'', Dir [])])]),
                       (''services'', Dir [(''api'', Dir [(''node_modules'', Dir [])])])])]"

text \<open>A host without \<^verbatim>\<open>du\<close>: the shell exits with status 127 and prints nothing.\<close>

definition not_found :: "nat \<Rightarrow> string \<Rightarrow> path option \<Rightarrow> proc_outcome" where
  "not_found n cmd cwd = Completed 127 [] ''/bin/sh: 1: du: not found''"


text \<open>The progress file of the blocked scenario, and the object that it holds.\<close>

definition quoted :: "string \<Rightarrow> string" where
  "quoted s = [CHR 0x22] @ s @ [CHR 0x22]"

definition blocked_text :: string where
  "blocked_text =
     ''{'' @ quoted ''status'' @ '':'' @ quoted ''blocked'' @ '',''
       @ quoted ''current_task'' @ '':'' @ quoted ''t3'' @ '',''
       @ quoted ''completed_tasks'' @ '':['' @ quoted ''t1'' @ '','' @ quoted ''t2'' @ ''],''
       @ quoted ''blocked_reason'' @ '':'' @ quoted ''awaiting approval'' @ '',''
       @ quoted ''last_updated'' @ '':'' @ quoted ''2024-01-01T00:00:00Z'' @ ''}''"

definition blocked_progress :: json where
  "blocked_progress =
     JObject [(''status'', JString ''blocked''),
              (''current_task'', JString ''t3''),
              (''completed_tasks'', JArray [JString ''t1'', JString ''t2'']),
              (''blocked_reason'', JString ''awaiting approval''),
              (''last_updated'', JString ''2024-01-01T00:00:00Z'')]"

definition blocked_parser :: "string \<Rightarrow> json option" where
  "blocked_parser s = (if s = blocked_text then Some blocked_progress else None)"

definition blocked_tree :: node where
  "blocked_tree =
     Dir [(''ws'', Dir [(''specs'', Dir [(''a'', Dir [(''.ralph'',
            Dir [(''progress.json'', File (Text blocked_text))])])])])]"

definition blocked_world :: world where
  "blocked_world = (make_world blocked_tree exits_2)\<lparr>json_load := blocked_parser\<rparr>"


text \<open>
  A progress file that is no JSON, beside a session log, in a workspace with a service
  that has a \<^verbatim>\<open>node_modules\<close> folder.
\<close>

definition malformed_tree :: node where
  "malformed_tree =
     Dir [(''ws'', Dir [(''specs'', Dir [(''a'', Dir [(''.ralph'',
            Dir [(''progress.json'', File (Text ''{oops'')),
                 (''session.log'', File (Text (''started'' @ nl @ ''working'' @ nl)))])])]),
                       (''services'', Dir [(''api'', Dir [(''node_modules'', Dir [])])])])]"

text \<open>A command that prints the size of a folder as \<^verbatim>\<open>du -sh\<close> does.\<close>

definition prints_size :: "nat \<Rightarrow> string \<Rightarrow> path option \<Rightarrow> proc_outcome" where
  "prints_size n cmd cwd = Completed 0 (''4.0K'' @ [CHR 0x09] @ ''node_modules'' @ [CHR 0x0A]) []"

text \<open>A progress file that is JSON, but a list and no object.\<close>

definition list_tree :: node where
  "list_tree =
     Dir [(''ws'', Dir [(''specs'', Dir [(''a'', Dir [(''.ralph'',
            Dir [(''progress.json'', File (Text ''[1]''))])])])])]"

definition list_parser :: "string \<Rightarrow> json option" where
  "list_parser s = (if s = ''[1]'' then Some (JArray [JInt 1]) else None)"

definition list_world :: world where
  "list_world = (make_world list_tree exits_2)\<lparr>json_load := list_parser\<rparr>"

text \<open>
  The progress state is absent in the words of the specification: the file does not
  exist, cannot be read (or is a directory), or does not parse.
\<close>

definition progress_unusable :: "world \<Rightarrow> path \<Rightarrow> bool" where
  "progress_unusable w spec_dir =
     (case lookup (fs w) (spec_dir @ [''.ralph'', ''progress.json'']) of
        None \<Rightarrow> True
      | Some (Dir es) \<Rightarrow> True
      | Some (File Unreadable) \<Rightarrow> True
      | Some (File (Text t)) \<Rightarrow> json_load w (universal_newlines t) = None)"

text \<open>The commands that the probes of one spec may run: the three of git, and \<^verbatim>\<open>du\<close>.\<close>

definition per_spec_cmd :: "string \<Rightarrow> bool" where
  "per_spec_cmd c =
     (c = git_branch_cmd \<or> c = git_log_cmd \<or> c = git_status_cmd \<or> startswith c ''du -sh '')"

text \<open>\<^verbatim>\<open>d.get(key, default)\<close> on the pairs of a dict.\<close>

definition field :: "(string \<times> json) list \<Rightarrow> string \<Rightarrow> json \<Rightarrow> json" where
  "field kvs k d = (case map_of kvs k of None \<Rightarrow> d | Some v \<Rightarrow> v)"

section \<open>Properties\<close>

subsection \<open>The command runner\<close>

text \<open>
  C1, as the code has it. \<^verbatim>\<open>run_cmd\<close> returns a text in every case and runs one command.
  When \<^verbatim>\<open>subprocess.run\<close> returns, with any exit status, the text is the stripped
  standard output; when the timeout expires it is \<^verbatim>\<open>[timeout]\<close>; when another exception
  is raised it is \<^verbatim>\<open>[error: msg]\<close>. The sentinels do not tell a failure from an output:
  the text has the shape of the error sentinel exactly when an exception was raised or the
  stripped output of the command has that shape itself, and it is \<^verbatim>\<open>[timeout]\<close> exactly
  when the timeout expired or the stripped output of the command is that text.
\<close>

theorem run_cmd_outcomes:
  assumes "exec w (length tr) cmd cwd = oc"
  shows "snd (run_cmd w cmd cwd tr) = tr @ [(cmd, cwd)]
       \<and> (\<forall>rc out err. oc = Completed rc out err \<longrightarrow> fst (run_cmd w cmd cwd tr) = strip out)
       \<and> (oc = TimeoutExpired \<longrightarrow> fst (run_cmd w cmd cwd tr) = ''[timeout]'')
       \<and> (\<forall>msg. oc = Raised msg \<longrightarrow> fst (run_cmd w cmd cwd tr) = ''[error: '' @ msg @ '']'')
       \<and> (is_error_sentinel (fst (run_cmd w cmd cwd tr)) \<longleftrightarrow>
            (\<exists>msg. oc = Raised msg)
            \<or> (\<exists>rc out err. oc = Completed rc out err \<and> is_error_sentinel (strip out)))
       \<and> (fst (run_cmd w cmd cwd tr) = ''[timeout]'' \<longleftrightarrow>
            oc = TimeoutExpired
            \<or> (\<exists>rc out err. oc = Completed rc out err \<and> strip out = ''[timeout]''))"
  using assms
  by (cases oc) (simp_all add: run_cmd_def is_error_sentinel_def startswith_def)

theorem run_cmd_outcomes_witness:
  "exec (make_world (Dir []) prints_sentinel) (length ([] :: trace)) ''echo [error: boom]'' None
     = Completed 0 (''[error: boom]'' @ [CHR 0x0A]) []
   \<and> run_cmd (make_world (Dir []) prints_sentinel) ''echo [error: boom]'' None []
     = (''[error: boom]'', [(''echo [error: boom]'', None)])
   \<and> is_error_sentinel
       (fst (run_cmd (make_world (Dir []) prints_sentinel) ''echo [error: boom]'' None []))"
proof -
  have s: "strip (''[error: boom]'' @ [CHR 0x0A]) = ''[error: boom]''"
    by code_simp
  have e: "exec (make_world (Dir []) prints_sentinel) (length ([] :: trace)) ''echo [error: boom]'' None
      = Completed 0 (''[error: boom]'' @ [CHR 0x0A]) []"
    by (simp add: make_world_def prints_sentinel_def)
  from run_cmd_outcomes [OF e] s e show ?thesis
    by (simp add: prod_eq_iff is_error_sentinel_def startswith_def)
qed

text \<open>
  C1 as stated fails: a command that exits with a non-zero status does not give the
  error sentinel, \<^verbatim>\<open>run_cmd\<close> returns its plain output.
\<close>

theorem run_cmd_nonzero_exit_counterexample:
  "exec (make_world (Dir []) exits_2) 0 ''ls /nonexistent /'' None
     = Completed 2 ''partial output'' ''ls: cannot access''
   \<and> fst (run_cmd (make_world (Dir []) exits_2) ''ls /nonexistent /'' None []) = ''partial output''
   \<and> \<not> is_error_sentinel (fst (run_cmd (make_world (Dir []) exits_2) ''ls /nonexistent /'' None []))"
proof -
  have s: "strip ''partial output'' = ''partial output''"
    by code_simp
  then show ?thesis
    by (simp add: run_cmd_def make_world_def exits_2_def is_error_sentinel_def startswith_def)
qed

subsection \<open>The Docker probe\<close>

text \<open>
  C9. \<^verbatim>\<open>check_docker_status\<close> records the placeholder exactly when the text that
  \<^verbatim>\<open>run_cmd\<close> returned is empty or begins with \<^verbatim>\<open>[\<close>, and the text itself otherwise.
\<close>

theorem check_docker_status_containers:
  "map_of (fst (check_docker_status w tr)) ''containers'' =
     Some (if fst (run_cmd w docker_cmd None tr) = []
              \<or> (\<exists>rest. fst (run_cmd w docker_cmd None tr) = CHR ''['' # rest)
           then docker_placeholder
           else fst (run_cmd w docker_cmd None tr))"
proof -
  obtain r tr1 where r: "run_cmd w docker_cmd None tr = (r, tr1)"
    by (cases "run_cmd w docker_cmd None tr")
  have "startswith r ''['' = (\<exists>rest. r = CHR ''['' # rest)"
    by (cases r) (auto simp: startswith_def)
  with r show ?thesis
    by (auto simp: check_docker_status_def)
qed

theorem check_docker_status_containers_witness:
  "fst (run_cmd (make_world (Dir []) lists_bracket) docker_cmd None []) = ''[web] Up 2 hours''
   \<and> map_of (fst (check_docker_status (make_world (Dir []) lists_bracket) [])) ''containers''
       = Some ''Docker not available or not running''"
proof -
  have s: "strip ''[web] Up 2 hours'' = ''[web] Up 2 hours''"
    by code_simp
  then have r: "fst (run_cmd (make_world (Dir []) lists_bracket) docker_cmd None []) = ''[web] Up 2 hours''"
    by (simp add: run_cmd_def make_world_def lists_bracket_def)
  with check_docker_status_containers [of "make_world (Dir []) lists_bracket" "[]"]
  show ?thesis
    by (simp add: docker_placeholder_def)
qed

subsection \<open>Auxiliary facts\<close>

lemma str_nat_0: "str_nat 0 = ''0''"
  by code_simp



lemma run_cmd_trace: "snd (run_cmd w cmd cwd tr) = tr @ [(cmd, cwd)]"
  by (simp add: run_cmd_def)

text \<open>The clock is read by the heading of the report only.\<close>

lemma exists_now [simp]: "exists (w\<lparr>now := t\<rparr>) p = exists w p"
  by (simp add: exists_def)

lemma is_dir_now [simp]: "is_dir (w\<lparr>now := t\<rparr>) p = is_dir w p"
  by (simp add: is_dir_def)

lemma iterdir_now [simp]: "iterdir (w\<lparr>now := t\<rparr>) p = iterdir w p"
  by (simp add: iterdir_def)

lemma run_cmd_now [simp]: "run_cmd (w\<lparr>now := t\<rparr>) cmd cwd tr = run_cmd w cmd cwd tr"
  by (simp add: run_cmd_def)

lemma py_str_now [simp]: "py_str (w\<lparr>now := t\<rparr>) v = py_str w v"
  by (cases v) (simp_all add: py_str_def)

lemma get_ralph_status_now [simp]:
  "get_ralph_status (w\<lparr>now := t\<rparr>) spec_dir = get_ralph_status w spec_dir"
  by (simp add: get_ralph_status_def Let_def split: option.splits node.splits content.splits)

lemma get_session_log_now [simp]:
  "get_session_log (w\<lparr>now := t\<rparr>) spec_dir = get_session_log w spec_dir"
  by (simp add: get_session_log_def Let_def split: option.splits node.splits content.splits)

lemma progress_lines_now [simp]: "progress_lines (w\<lparr>now := t\<rparr>) v = progress_lines w v"
  by (simp add: progress_lines_def cong: if_cong)

lemma find_repo_root_now [simp]: "find_repo_root (w\<lparr>now := t\<rparr>) p = find_repo_root w p"
proof (induction p rule: rev_induct)
  case Nil
  show ?case
    by (simp add: find_repo_root.simps [of _ "[]"] parent_def)
next
  case (snoc x xs)
  then show ?case
    by (simp add: find_repo_root.simps [of _ "xs @ [x]"] parent_def)
qed

lemma get_git_info_now [simp]:
  "get_git_info (w\<lparr>now := t\<rparr>) spec_dir tr = get_git_info w spec_dir tr"
  by (simp add: get_git_info_def Let_def split: prod.splits)

lemma resource_loop_now [simp]:
  "resource_loop (w\<lparr>now := t\<rparr>) ds resources tr = resource_loop w ds resources tr"
  by (induction ds arbitrary: resources tr) (simp_all split: list.splits)

lemma get_resource_usage_now [simp]:
  "get_resource_usage (w\<lparr>now := t\<rparr>) spec_dir tr = get_resource_usage w spec_dir tr"
  by (simp add: get_resource_usage_def Let_def split: sum.splits)

lemma spec_section_now [simp]:
  "spec_section (w\<lparr>now := t\<rparr>) verbose spec_dir tr = spec_section w verbose spec_dir tr"
  by (simp add: spec_section_def split: sum.splits prod.splits)

lemma specs_loop_now [simp]:
  "specs_loop (w\<lparr>now := t\<rparr>) verbose specs lines tr = specs_loop w verbose specs lines tr"
  by (induction specs arbitrary: lines tr) (simp_all split: sum.splits prod.splits)

lemma diagnostics_now [simp]: "diagnostics (w\<lparr>now := t\<rparr>) tr = diagnostics w tr"
  by (simp add: diagnostics_def check_docker_status_def check_system_deps_def split: prod.splits)

text \<open>The ascent to the repository root.\<close>

lemma find_repo_root_nearest:
  "find_repo_root w p \<in> set (prefixes p)
   \<and> (find_repo_root w p = [] \<or> exists w (find_repo_root w p @ [''.git'']))
   \<and> (\<forall>q \<in> set (prefixes p).
         length (find_repo_root w p) < length q \<longrightarrow> \<not> exists w (q @ [''.git'']))"
proof (induction p rule: rev_induct)
  case Nil
  show ?case
    by (simp add: find_repo_root.simps [of _ "[]"] parent_def)
next
  case (snoc x xs)
  show ?case
  proof (cases "exists w ((xs @ [x]) @ [''.git''])")
    case True
    then have "find_repo_root w (xs @ [x]) = xs @ [x]"
      by (simp add: find_repo_root.simps [of _ "xs @ [x]"] parent_def)
    with True show ?thesis
      by (auto dest!: prefix_length_le)
  next
    case False
    then have "find_repo_root w (xs @ [x]) = find_repo_root w xs"
      by (simp add: find_repo_root.simps [of _ "xs @ [x]"] parent_def)
    with False snoc show ?thesis
      by auto
  qed
qed

text \<open>The commands that the probes of the specs run.\<close>

lemma per_spec_cmd_other: "per_spec_cmd c \<Longrightarrow> c \<noteq> docker_cmd \<and> c \<noteq> which_cmd"
  by (auto simp: per_spec_cmd_def git_branch_cmd_def git_log_cmd_def git_status_cmd_def
      docker_cmd_def which_cmd_def startswith_def)

lemma get_git_info_trace:
  "\<exists>mid. snd (get_git_info w spec_dir tr) = tr @ mid \<and> (\<forall>c \<in> set mid. per_spec_cmd (fst c))"
proof (cases "exists w (find_repo_root w spec_dir @ [''.git''])")
  case True
  then have "snd (get_git_info w spec_dir tr) =
      tr @ [(git_branch_cmd, Some (find_repo_root w spec_dir)),
            (git_log_cmd, Some (find_repo_root w spec_dir)),
            (git_status_cmd, Some (find_repo_root w spec_dir))]"
    by (simp add: get_git_info_def Let_def run_cmd_def)
  then show ?thesis
    by (simp add: per_spec_cmd_def)
next
  case False
  then show ?thesis
    by (simp add: get_git_info_def)
qed

lemma resource_loop_trace:
  "\<exists>mid. snd (resource_loop w ds resources tr) = tr @ mid
     \<and> (\<forall>c \<in> set mid. per_spec_cmd (fst c))"
proof (induction ds arbitrary: resources tr)
  case Nil
  show ?case by simp
next
  case (Cons d ds)
  note IH = Cons.IH
  let ?c = "du_cmd (d @ [''node_modules''])"
  show ?case
  proof (cases "is_dir w d \<and> exists w (d @ [''node_modules''])")
    case False
    then have "resource_loop w (d # ds) resources tr = resource_loop w ds resources tr"
      by auto
    with IH [of resources tr] show ?thesis
      by simp
  next
    case True
    have du: "per_spec_cmd ?c"
      by (simp add: per_spec_cmd_def du_cmd_def startswith_def)
    show ?thesis
    proof (cases "split_ws (fst (run_cmd w ?c None tr))")
      case Nil
      with True have "snd (resource_loop w (d # ds) resources tr) = tr @ [(?c, None)]"
        by (simp add: run_cmd_trace)
      with du show ?thesis
        by simp
    next
      case (Cons sz toks)
      with True have eq: "resource_loop w (d # ds) resources tr =
          resource_loop w ds (AList.update (name d) sz resources) (tr @ [(?c, None)])"
        by (simp add: run_cmd_trace)
      from IH [of "AList.update (name d) sz resources" "tr @ [(?c, None)]"]
      obtain mid where mid:
        "snd (resource_loop w ds (AList.update (name d) sz resources) (tr @ [(?c, None)]))
           = (tr @ [(?c, None)]) @ mid"
        "\<forall>c \<in> set mid. per_spec_cmd (fst c)"
        by blast
      with eq du show ?thesis
        by (intro exI [of _ "(?c, None) # mid"]) simp
    qed
  qed
qed

lemma get_resource_usage_trace:
  "\<exists>mid. snd (get_resource_usage w spec_dir tr) = tr @ mid
     \<and> (\<forall>c \<in> set mid. per_spec_cmd (fst c))"
proof (cases "exists w (parent (parent spec_dir) @ [''services''])")
  case False
  then show ?thesis
    by (simp add: get_resource_usage_def)
next
  case True
  show ?thesis
  proof (cases "iterdir w (parent (parent spec_dir) @ [''services''])")
    case (Inl e)
    with True show ?thesis
      by (simp add: get_resource_usage_def)
  next
    case (Inr ds)
    with True have "get_resource_usage w spec_dir tr = resource_loop w ds [] tr"
      by (simp add: get_resource_usage_def)
    then show ?thesis
      using resource_loop_trace by simp
  qed
qed

lemma spec_section_trace:
  "\<exists>mid. snd (spec_section w verbose spec_dir tr) = tr @ mid
     \<and> (\<forall>c \<in> set mid. per_spec_cmd (fst c))"
proof -
  obtain m1 where m1: "snd (get_git_info w spec_dir tr) = tr @ m1"
    "\<forall>c \<in> set m1. per_spec_cmd (fst c)"
    using get_git_info_trace by blast
  obtain m2 where m2: "snd (get_resource_usage w spec_dir (tr @ m1)) = (tr @ m1) @ m2"
    "\<forall>c \<in> set m2. per_spec_cmd (fst c)"
    using get_resource_usage_trace by blast
  show ?thesis
  proof (cases "progress_lines w (get_ralph_status w spec_dir)")
    case (Inl e)
    then show ?thesis
      by (simp add: spec_section_def)
  next
    case (Inr pl)
    obtain r tr2 where r: "get_resource_usage w spec_dir (tr @ m1) = (r, tr2)"
      by (cases "get_resource_usage w spec_dir (tr @ m1)")
    with m2 have tr2: "tr2 = tr @ m1 @ m2"
      by simp
    have "snd (spec_section w verbose spec_dir tr) = tr2"
      using Inr r m1 by (cases r) (simp_all add: spec_section_def)
    with tr2 m1 m2 show ?thesis
      by (intro exI [of _ "m1 @ m2"]) auto
  qed
qed

lemma specs_loop_trace:
  "\<exists>mid. snd (specs_loop w verbose specs lines tr) = tr @ mid
     \<and> (\<forall>c \<in> set mid. per_spec_cmd (fst c))"
proof (induction specs arbitrary: lines tr)
  case Nil
  show ?case by simp
next
  case (Cons s specs)
  obtain m1 where m1: "snd (spec_section w verbose s tr) = tr @ m1"
    "\<forall>c \<in> set m1. per_spec_cmd (fst c)"
    using spec_section_trace by blast
  obtain r tr1 where r: "spec_section w verbose s tr = (r, tr1)"
    by (cases "spec_section w verbose s tr")
  with m1 have tr1: "tr1 = tr @ m1"
    by simp
  show ?case
  proof (cases r)
    case (Inl e)
    with r have "snd (specs_loop w verbose (s # specs) lines tr) = tr1"
      by simp
    with tr1 m1 show ?thesis
      by (intro exI [of _ m1]) simp
  next
    case (Inr ls)
    from Cons.IH [of "lines @ ls" "tr @ m1"]
    obtain m2 where m2: "snd (specs_loop w verbose specs (lines @ ls) (tr @ m1)) = (tr @ m1) @ m2"
      "\<forall>c \<in> set m2. per_spec_cmd (fst c)"
      by blast
    from Inr r tr1 have "snd (specs_loop w verbose (s # specs) lines tr)
        = snd (specs_loop w verbose specs (lines @ ls) (tr @ m1))"
      by simp
    with m1 m2 show ?thesis
      by (intro exI [of _ "m1 @ m2"]) auto
  qed
qed

lemma diagnostics_trace:
  "snd (diagnostics w tr) = tr @ [(docker_cmd, None), (which_cmd, None), (which_cmd, None)]"
  by (simp add: diagnostics_def check_docker_status_def check_system_deps_def run_cmd_def
      split: prod.splits)









subsection \<open>Discovery\<close>



subsection \<open>The ascent to the repository root\<close>

text \<open>
  C8. The loop of \<^verbatim>\<open>get_git_info\<close> is a total function (its termination is proved with
  the definition: each turn shortens the path). It stops at the spec directory or at one
  of its ancestors: at the nearest one that has an entry \<^verbatim>\<open>.git\<close>, at the root when
  there is none. When neither the spec directory nor an ancestor has an entry
  \<^verbatim>\<open>.git\<close>, \<^verbatim>\<open>get_git_info\<close> returns the empty result and runs no command.
\<close>

theorem get_git_info_ascent:
  "find_repo_root w spec_dir \<in> set (prefixes spec_dir)
   \<and> (find_repo_root w spec_dir = [] \<or> exists w (find_repo_root w spec_dir @ [''.git'']))
   \<and> (\<forall>q \<in> set (prefixes spec_dir).
         length (find_repo_root w spec_dir) < length q \<longrightarrow> \<not> exists w (q @ [''.git'']))
   \<and> ((\<forall>q \<in> set (prefixes spec_dir). \<not> exists w (q @ [''.git'']))
        \<longrightarrow> get_git_info w spec_dir tr = (None, tr))"
proof -
  note n = find_repo_root_nearest [of w spec_dir]
  have "get_git_info w spec_dir tr = (None, tr)"
    if "\<forall>q \<in> set (prefixes spec_dir). \<not> exists w (q @ [''.git''])"
  proof -
    from n that have "\<not> exists w (find_repo_root w spec_dir @ [''.git''])"
      by blast
    then show ?thesis
      by (simp add: get_git_info_def)
  qed
  with n show ?thesis
    by blast
qed

theorem get_git_info_ascent_witness:
  "prefixes [''ws'', ''specs'', ''a'']
     = [[], [''ws''], [''ws'', ''specs''], [''ws'', ''specs'', ''a'']]
   \<and> \<not> exists (make_world services_tree not_found) [''.git'']
   \<and> \<not> exists (make_world services_tree not_found) [''ws'', ''.git'']
   \<and> \<not> exists (make_world services_tree not_found) [''ws'', ''specs'', ''.git'']
   \<and> \<not> exists (make_world services_tree not_found) [''ws'', ''specs'', ''a'', ''.git'']
   \<and> find_repo_root (make_world services_tree not_found) [''ws'', ''specs'', ''a''] = []
   \<and> get_git_info (make_world services_tree not_found) [''ws'', ''specs'', ''a''] [] = (None, [])"
proof -
  have p: "prefixes [''ws'', ''specs'', ''a'']
     = [[], [''ws''], [''ws'', ''specs''], [''ws'', ''specs'', ''a'']]"
    by simp
  have e: "\<not> exists (make_world services_tree not_found) [''.git'']"
    "\<not> exists (make_world services_tree not_found) [''ws'', ''.git'']"
    "\<not> exists (make_world services_tree not_found) [''ws'', ''specs'', ''.git'']"
    "\<not> exists (make_world services_tree not_found) [''ws'', ''specs'', ''a'', ''.git'']"
    by code_simp+
  from get_git_info_ascent [of "make_world services_tree not_found" "[''ws'', ''specs'', ''a'']" "[]"]
    p e
  show ?thesis
    by auto
qed

subsection \<open>The report\<close>

text \<open>
  C3 fails in the code. In the workspace of the examples, on a host where \<^verbatim>\<open>du\<close>
  prints nothing, \<^verbatim>\<open>scan_specs\<close> finds the two specs, and \<^verbatim>\<open>format_report\<close>, even
  without the verbose flag, raises \<^verbatim>\<open>IndexError\<close> in the resource probe of the first
  spec: there is no report, and the second spec is never looked at.
\<close>

theorem format_report_du_abort:
  "scan_specs (make_world services_tree not_found) [''ws'']
     = Inr [[''ws'', ''specs'', ''a''], [''ws'', ''specs'', ''b'']]
   \<and> format_report (make_world services_tree not_found)
       [[''ws'', ''specs'', ''a''], [''ws'', ''specs'', ''b'']] False []
     = (Inl IndexError, [(du_cmd [''ws'', ''services'', ''api'', ''node_modules''], None)])"
  by code_simp

text \<open>
  C4, as the code has it. \<^verbatim>\<open>format_report\<close> reads the clock for the heading of the
  report, and nowhere else: two calls that see the same files and the same results of the
  commands give the same document when the clock reads the same second.
\<close>

theorem format_report_clock:
  assumes "strftime t = strftime (now w)"
  shows "format_report (w\<lparr>now := t\<rparr>) specs verbose tr = format_report w specs verbose tr"
proof -
  from assms have "header (w\<lparr>now := t\<rparr>) = header w"
    by (simp add: header_def)
  then show ?thesis
    by (simp add: format_report_def split: sum.splits prod.splits)
qed

theorem format_report_clock_witness:
  "strftime (new_year\<lparr>microsecond := 5\<rparr>) = strftime (now blocked_world)
   \<and> format_report (blocked_world\<lparr>now := new_year\<lparr>microsecond := 5\<rparr>\<rparr>)
       [[''ws'', ''specs'', ''a'']] True []
     = format_report blocked_world [[''ws'', ''specs'', ''a'']] True []"
proof -
  have h: "strftime (new_year\<lparr>microsecond := 5\<rparr>) = strftime (now blocked_world)"
    by (simp add: strftime_def blocked_world_def make_world_def new_year_def)
  from format_report_clock [OF h] h show ?thesis
    by simp
qed

text \<open>
  C4 as stated fails: two calls with the same list of specs, the same files, the same
  results of the commands and the same flag, one second apart, give two documents.
\<close>

theorem format_report_clock_counterexample:
  "fst (format_report (make_world (Dir []) exits_2) [] False [])
   \<noteq> fst (format_report ((make_world (Dir []) exits_2)\<lparr>now := new_year\<lparr>second := 1\<rparr>\<rparr>) [] False [])"
  by code_simp

text \<open>
  When the progress file is absent, unreadable or does not parse,
  \<^verbatim>\<open>get_ralph_status\<close> returns \<^verbatim>\<open>None\<close>, and the record of the spec is its heading
  followed by the blocks of the session log, of git and of the resources; the only
  exception that can end it is one of the resource probe.
\<close>

lemma absent_progress_isolated:
  assumes "progress_unusable w spec_dir"
  shows "get_ralph_status w spec_dir = JNull
       \<and> spec_section w verbose spec_dir tr =
           (case get_resource_usage w spec_dir (snd (get_git_info w spec_dir tr)) of
              (Inl e, tr2) \<Rightarrow> (Inl e, tr2)
            | (Inr resources, tr2) \<Rightarrow>
                (Inr ([nl @ ''### '' @ str_relative spec_dir]
                      @ session_lines verbose (get_session_log w spec_dir)
                      @ git_lines (fst (get_git_info w spec_dir tr))
                      @ resource_lines verbose resources), tr2))"
proof -
  from assms have st: "get_ralph_status w spec_dir = JNull"
    by (auto simp: progress_unusable_def get_ralph_status_def exists_def
        split: option.splits node.splits content.splits)
  have "progress_lines w JNull = Inr []"
    by (simp add: progress_lines_def)
  with st show ?thesis
    by (simp add: spec_section_def split: sum.splits prod.splits)
qed

lemma absent_progress_isolated_example:
  "progress_unusable (make_world malformed_tree prints_size) [''ws'', ''specs'', ''a'']
   \<and> get_ralph_status (make_world malformed_tree prints_size) [''ws'', ''specs'', ''a''] = JNull
   \<and> spec_section (make_world malformed_tree prints_size) True [''ws'', ''specs'', ''a''] []
     = (Inr [nl @ ''### ws/specs/a'', session_header, ''  started'', ''  working'',
             nl @ ''**Disk Usage:**'', ''- api: 4.0K''],
        [(du_cmd [''ws'', ''services'', ''api'', ''node_modules''], None)])"
  by code_simp

text \<open>
  A progress file that holds JSON which is no object is not absent for
  \<^verbatim>\<open>get_ralph_status\<close>: the list is returned, and the record of the spec ends with
  \<^verbatim>\<open>AttributeError\<close>.
\<close>

lemma non_object_progress_raises:
  "get_ralph_status list_world [''ws'', ''specs'', ''a''] = JArray [JInt 1]
   \<and> spec_section list_world False [''ws'', ''specs'', ''a''] [] = (Inl AttributeError, [])"
  by code_simp

text \<open>
  C5 fails in the code. The progress file of the spec does not parse, and
  \<^verbatim>\<open>get_ralph_status\<close> returns \<^verbatim>\<open>None\<close> for it; but on a host where \<^verbatim>\<open>du\<close> prints
  nothing the rest of the record of the spec is not produced: its resource probe raises
  \<^verbatim>\<open>IndexError\<close>, and so does \<^verbatim>\<open>format_report\<close>.
\<close>

theorem absent_progress_record_lost:
  "progress_unusable (make_world malformed_tree not_found) [''ws'', ''specs'', ''a'']
   \<and> get_ralph_status (make_world malformed_tree not_found) [''ws'', ''specs'', ''a''] = JNull
   \<and> spec_section (make_world malformed_tree not_found) False [''ws'', ''specs'', ''a''] []
     = (Inl IndexError, [(du_cmd [''ws'', ''services'', ''api'', ''node_modules''], None)])
   \<and> fst (format_report (make_world malformed_tree not_found) [[''ws'', ''specs'', ''a'']] False [])
     = Inl IndexError"
  by code_simp

text \<open>
  C6, as the code has it. With the verbose flag and at least one spec, a call of
  \<^verbatim>\<open>format_report\<close> that returns a document has run, after the commands of the specs
  (those of git and \<^verbatim>\<open>du\<close>), the command of the Docker probe once and then the two
  commands \<^verbatim>\<open>which timeout\<close> of the one check of the system dependencies.
\<close>

theorem diagnostics_run_once:
  assumes "specs \<noteq> []"
    and "format_report w specs True tr = (Inr doc, tr')"
  shows "\<exists>mid. tr' = tr @ mid @ [(docker_cmd, None), (which_cmd, None), (which_cmd, None)]
      \<and> (\<forall>c \<in> set mid. per_spec_cmd (fst c))
      \<and> count_list (map fst (drop (length tr) tr')) docker_cmd = 1
      \<and> count_list (map fst (drop (length tr) tr')) which_cmd = 2"
proof -
  let ?lines = "header w @ [nl @ ''## Found '' @ str_nat (length specs) @ '' Ralph Spec(s)'']"
  obtain mid where mid: "snd (specs_loop w True specs ?lines tr) = tr @ mid"
    "\<forall>c \<in> set mid. per_spec_cmd (fst c)"
    using specs_loop_trace by blast
  obtain r tr1 where r: "specs_loop w True specs ?lines tr = (r, tr1)"
    by (cases "specs_loop w True specs ?lines tr")
  with mid have tr1: "tr1 = tr @ mid"
    by simp
  from assms r obtain lines where "r = Inr lines"
    by (cases r) (auto simp: format_report_def)
  with assms r have "tr' = snd (diagnostics w tr1)"
    by (auto simp: format_report_def split: prod.splits)
  with tr1 have tr': "tr' = tr @ mid @ [(docker_cmd, None), (which_cmd, None), (which_cmd, None)]"
    by (simp add: diagnostics_trace)
  from mid(2) have "\<forall>c \<in> set mid. fst c \<noteq> docker_cmd \<and> fst c \<noteq> which_cmd"
    using per_spec_cmd_other by blast
  then have "docker_cmd \<notin> set (map fst mid)" "which_cmd \<notin> set (map fst mid)"
    by auto
  moreover have "docker_cmd \<noteq> which_cmd"
    by (simp add: docker_cmd_def which_cmd_def)
  ultimately have "count_list (map fst (drop (length tr) tr')) docker_cmd = 1"
    "count_list (map fst (drop (length tr) tr')) which_cmd = 2"
    using tr' by simp_all
  with tr' mid(2) show ?thesis
    by blast
qed

theorem diagnostics_run_once_witness:
  "[[''ws'', ''specs'', ''a'']] \<noteq> ([] :: path list)
   \<and> snd (format_report blocked_world [[''ws'', ''specs'', ''a'']] True [])
     = [(docker_cmd, None), (which_cmd, None), (which_cmd, None)]
   \<and> count_list (map fst (snd (format_report blocked_world [[''ws'', ''specs'', ''a'']] True [])))
       docker_cmd = 1"
proof -
  have "case fst (format_report blocked_world [[''ws'', ''specs'', ''a'']] True []) of
          Inl e \<Rightarrow> False | Inr doc \<Rightarrow> True"
    by code_simp
  then obtain doc where "fst (format_report blocked_world [[''ws'', ''specs'', ''a'']] True []) = Inr doc"
    by (auto split: sum.splits)
  then have f: "format_report blocked_world [[''ws'', ''specs'', ''a'']] True []
      = (Inr doc, snd (format_report blocked_world [[''ws'', ''specs'', ''a'']] True []))"
    by (simp add: prod_eq_iff)
  have t: "snd (format_report blocked_world [[''ws'', ''specs'', ''a'']] True [])
      = [(docker_cmd, None), (which_cmd, None), (which_cmd, None)]"
    by code_simp
  from diagnostics_run_once [OF _ f] t show ?thesis
    by simp
qed

text \<open>
  C6 as stated fails: with the verbose flag and no spec, \<^verbatim>\<open>format_report\<close> returns
  after the warning line and runs no command at all, so neither of the two probes is run.
\<close>

theorem diagnostics_no_specs_counterexample:
  "snd (format_report (make_world (Dir []) exits_2) [] True []) = []
   \<and> count_list (map fst (snd (format_report (make_world (Dir []) exits_2) [] True []))) docker_cmd = 0
   \<and> count_list (map fst (snd (format_report (make_world (Dir []) exits_2) [] True []))) which_cmd = 0"
  by (simp add: format_report_def)



text \<open>
  C10, as the code has it. For a progress state that is a JSON object with at least one
  member, whose \<^verbatim>\<open>completed_tasks\<close> and \<^verbatim>\<open>failed_tasks\<close> are lists when they are
  there, the lines of the progress are printed with the defaults \<^verbatim>\<open>unknown\<close>,
  \<^verbatim>\<open>none\<close>, 0 and \<^verbatim>\<open>never\<close>; the line of the blocked reason is there exactly when the
  status is the text \<^verbatim>\<open>blocked\<close> (with the default reason \<^verbatim>\<open>unknown\<close>), the line of
  the failed tasks exactly when \<^verbatim>\<open>failed_tasks\<close> is there and is not empty.
\<close>

theorem progress_lines_defaults:
  assumes "kvs \<noteq> []"
    and "field kvs ''completed_tasks'' (JArray []) = JArray cs"
    and "field kvs ''failed_tasks'' (JArray []) = JArray fl"
  shows "progress_lines w (JObject kvs) =
     Inr ([nl @ ''**Ralph Progress:**'',
           ''- Status: '' @ tick @ py_str w (field kvs ''status'' (JString ''unknown'')) @ tick,
           ''- Current Task: '' @ tick @ py_str w (field kvs ''current_task'' (JString ''none'')) @ tick,
           ''- Completed: '' @ str_nat (length cs) @ '' tasks'']
          @ (if map_of kvs ''status'' = Some (JString ''blocked'')
             then [''- '' @ no_entry_sign @ '' BLOCKED: ''
                     @ py_str w (field kvs ''blocked_reason'' (JString ''unknown''))]
             else [])
          @ (if fl \<noteq> [] then [''- Failed Tasks: '' @ str_nat (length fl)] else [])
          @ [''- Last Updated: '' @ tick
               @ py_str w (field kvs ''last_updated'' (JString ''never'')) @ tick])"
  using assms
  by (auto simp: progress_lines_def ebind_def field_def split: option.splits)

theorem progress_lines_defaults_witness:
  "[(''note'', JInt 1)] \<noteq> []
   \<and> field [(''note'', JInt 1)] ''completed_tasks'' (JArray []) = JArray []
   \<and> field [(''note'', JInt 1)] ''failed_tasks'' (JArray []) = JArray []
   \<and> progress_lines (make_world (Dir []) exits_2) (JObject [(''note'', JInt 1)]) =
       Inr [nl @ ''**Ralph Progress:**'',
            ''- Status: '' @ tick @ ''unknown'' @ tick,
            ''- Current Task: '' @ tick @ ''none'' @ tick,
            ''- Completed: 0 tasks'',
            ''- Last Updated: '' @ tick @ ''never'' @ tick]"
  using progress_lines_defaults [of "[(''note'', JInt 1)]" "[]" "[]" "make_world (Dir []) exits_2"]
  by (simp add: field_def py_str_def str_nat_0)

text \<open>
  C10 as stated fails: the empty object parses as a JSON object that omits every field,
  and no line of the progress is printed for it.
\<close>

theorem progress_lines_empty_object_counterexample:
  "progress_lines (make_world (Dir []) exits_2) (JObject []) = Inr []"
  by (simp add: progress_lines_def)

end
